theory Spec2Isabelle
  imports Complex_Main "HOL-Library.Word"
begin

section \<open>Data model\<close>

text \<open>
  The booking lifecycle of the rental marketplace: the Mongoose schemas \<open>Booking\<close> and
  \<open>Property\<close> and the Express routes under \<open>/api/bookings\<close>.

  Conventions of the embedding.
  \<^item> An ObjectId is a natural number. A \<open>Date\<close> is its time value, the number of
    milliseconds since the epoch, as an integer; \<open>new Date(x)\<close> has already been taken.
  \<^item> Amounts of money are JavaScript numbers. The model takes the integer ones and
    computes in the integers; the source computes in double precision, which is exact as
    long as the operands and the result are safe integers (\<open>safe_integer\<close>, at most
    \<open>2^53 - 1\<close> in absolute value). The theorems that state a computed sum or total carry
    this range as a hypothesis.
  \<^item> A string is the list of its UTF-16 code units.
  \<^item> A schema \<open>enum\<close> is a datatype, so a request carries one of the enumerated values.
  \<^item> Every route returns the response together with the database after the request:
    \<open>Inl\<close> an error response, \<open>Inr\<close> the document of a success response.
  \<^item> The fields of \<open>Booking\<close> that none of the modelled routes reads or writes
    (\<open>moveInDate\<close>, \<open>moveOutDate\<close>, \<open>documents\<close>, \<open>communication\<close>, the
    cancellation fields, \<open>paymentDate\<close> of a payment and the timestamps) are left out.
\<close>

type_synonym objectId = nat
type_synonym date = int
type_synonym js_string = "16 word list"

datatype user_role = Owner | Renter

record user =
  userId :: objectId
  role :: user_role

datatype booking_status = Pending | Approved | Rejected | Active | Completed | Cancelled

datatype payment_status = PaymentPending | Partial | Paid | Overdue

datatype payment_method = CreditCard | BankTransfer | Check | Cash

record payment =
  amount :: int
  paymentMethod :: payment_method
  description :: js_string
  transactionId :: js_string

text \<open>
  The paths of a \<open>Booking\<close> document other than \<open>totalAmount\<close>. A stored document
  (\<open>booking\<close>) has all of them and, since the schema requires it, a \<open>totalAmount\<close>. A
  document that \<open>new Booking({...})\<close> has just built (\<open>new_booking\<close>) has a \<open>totalAmount\<close>
  only if the constructor was given one.
\<close>

record booking_paths =
  bookingId :: objectId
  property :: objectId
  renter :: objectId
  owner :: objectId
  startDate :: date
  endDate :: date
  monthlyRent :: int
  securityDeposit :: int
  status :: booking_status
  paymentStatus :: payment_status
  specialRequests :: "js_string option"
  paymentHistory :: "payment list"

record booking = booking_paths +
  totalAmount :: int

record new_booking = booking_paths +
  givenTotalAmount :: "int option"

text \<open>The part of a \<open>Property\<close> document that the booking routes use.\<close>

record property_doc =
  propertyOwner :: objectId
  rentPrice :: int
  propertyDeposit :: int
  isAvailable :: bool

text \<open>
  The database: the \<open>Property\<close> collection by id, the \<open>Booking\<close> collection in insertion
  order, and the ids of the \<open>User\<close> documents (for \<open>populate('owner')\<close>).
\<close>

record store =
  properties :: "objectId \<rightharpoonup> property_doc"
  bookings :: "booking list"
  users :: "objectId set"

datatype error =
    RenterRoleRequired
  | OwnerRoleRequired
  | PropertyNotFound
  | PropertyNotAvailable
  | AlreadyBooked
  | BookingNotFound
  | NotAuthorized
  | ValidationError
  | ServerError

section \<open>The Booking model\<close>

text \<open>The paths of a booking document whose modification the model tracks.\<close>

datatype path =
    P_startDate | P_endDate | P_monthlyRent | P_securityDeposit
  | P_status | P_paymentStatus | P_paymentHistory | P_specialRequests

text \<open>\<open>Number.isSafeInteger\<close>: the integers on which double-precision arithmetic is exact.\<close>

definition safe_integer :: "int \<Rightarrow> bool" where
  "safe_integer n \<longleftrightarrow> - 9007199254740991 \<le> n \<and> n \<le> 9007199254740991"

text \<open>
  The virtual \<open>durationInMonths\<close>:
  \<open>Math.ceil((this.endDate - this.startDate) / (1000 * 60 * 60 * 24 * 30))\<close>.
  The difference and the quotient are taken exactly, in the integers and in the reals.
  The source subtracts and divides in double precision: the difference is the same when
  it is a safe integer, and then the quotient, of less than \<open>2^22\<close> in absolute value, is
  rounded by less than its distance to the next integer, so that its ceiling is the same.
\<close>

definition durationInMonths :: "'a booking_paths_scheme \<Rightarrow> int" where
  "durationInMonths b =
     \<lceil>real_of_int (endDate b - startDate b) / (1000 * 60 * 60 * 24 * 30)\<rceil>"

text \<open>
  The \<open>pre('save')\<close> hook. Its argument \<open>modified\<close> is the set of paths for which
  \<open>isModified\<close> answers true. The product and the sum are exact in the source when they
  are safe integers (\<open>hook_exact\<close> below).
\<close>

definition pre_save :: "path set \<Rightarrow> booking \<Rightarrow> booking" where
  "pre_save modified b =
     (if P_monthlyRent \<in> modified \<or> P_securityDeposit \<in> modified
         \<or> P_startDate \<in> modified \<or> P_endDate \<in> modified
      then
        let months = \<lceil>real_of_int (endDate b - startDate b) / (1000 * 60 * 60 * 24 * 30)\<rceil>
        in b\<lparr>totalAmount := (monthlyRent b * months) + securityDeposit b\<rparr>
      else b)"

text \<open>The time values of the valid dates of ECMAScript.\<close>

definition valid_time :: "date \<Rightarrow> bool" where
  "valid_time t \<longleftrightarrow> - 8640000000000000 \<le> t \<and> t \<le> 8640000000000000"

text \<open>The values on which the hook computes exactly.\<close>

definition hook_exact :: "'a booking_paths_scheme \<Rightarrow> bool" where
  "hook_exact b \<longleftrightarrow>
     valid_time (startDate b) \<and> valid_time (endDate b) \<and>
     safe_integer (endDate b - startDate b) \<and>
     safe_integer (monthlyRent b) \<and> safe_integer (securityDeposit b) \<and>
     safe_integer (monthlyRent b * durationInMonths b) \<and>
     safe_integer (monthlyRent b * durationInMonths b + securityDeposit b)"

text \<open>
  The validators of the schema that a typed document can still violate, apart from
  \<open>required\<close> on \<open>totalAmount\<close>: \<open>min: 0\<close> on \<open>monthlyRent\<close> and \<open>securityDeposit\<close>,
  \<open>maxlength: 500\<close> on \<open>specialRequests\<close>. A stored document is taken to satisfy the schema,
  so that on a save of it a validator can only fail on a path that the request has
  modified.
\<close>

definition validate :: "path set \<Rightarrow> 'a booking_paths_scheme \<Rightarrow> bool" where
  "validate modified b \<longleftrightarrow>
     (P_monthlyRent \<in> modified \<longrightarrow> 0 \<le> monthlyRent b) \<and>
     (P_securityDeposit \<in> modified \<longrightarrow> 0 \<le> securityDeposit b) \<and>
     (P_specialRequests \<in> modified \<longrightarrow>
        (case specialRequests b of None \<Rightarrow> True | Some s \<Rightarrow> length s \<le> 500))"

text \<open>
  \<open>trim: true\<close> on \<open>specialRequests\<close>: \<open>String.prototype.trim\<close> removes the white space and
  the line terminators of ECMAScript from both ends: TAB, LF, VT, FF, CR, SP, NBSP,
  U+1680, U+2000 to U+200A, LS, PS, U+202F, U+205F, U+3000 and the byte order mark.
\<close>

definition is_space :: "16 word \<Rightarrow> bool" where
  "is_space c \<longleftrightarrow>
     c \<in> set [0x0009, 0x000A, 0x000B, 0x000C, 0x000D, 0x0020, 0x00A0, 0x1680,
              0x2028, 0x2029, 0x202F, 0x205F, 0x3000, 0xFEFF]
     \<or> (0x2000 \<le> c \<and> c \<le> 0x200A)"

definition trim :: "js_string \<Rightarrow> js_string" where
  "trim s = rev (dropWhile is_space (rev (dropWhile is_space s)))"

text \<open>\<open>Booking.findById\<close>.\<close>

definition findById :: "objectId \<Rightarrow> booking list \<Rightarrow> booking option" where
  "findById i bs = find (\<lambda>b. bookingId b = i) bs"

text \<open>The write of \<open>save()\<close> for a stored document: the document with its \<open>_id\<close> is replaced.\<close>

fun updateOne :: "booking \<Rightarrow> booking list \<Rightarrow> booking list" where
  "updateOne b [] = []"
| "updateOne b (x # xs) =
     (if bookingId x = bookingId b then b # xs else x # updateOne b xs)"

text \<open>
  \<open>new Booking({...})\<close> as the create route calls it (authMiddleware.js, lines 126 to
  135). \<open>status\<close> and \<open>paymentStatus\<close> take their defaults, the payment history is empty,
  and no \<open>totalAmount\<close> is given.
\<close>

definition new_Booking ::
  "objectId \<Rightarrow> objectId \<Rightarrow> objectId \<Rightarrow> objectId \<Rightarrow> date \<Rightarrow> date \<Rightarrow> int \<Rightarrow> int
     \<Rightarrow> js_string option \<Rightarrow> new_booking" where
  "new_Booking newId propertyId renterId ownerId startD endD rent deposit requests =
     \<lparr> bookingId = newId, property = propertyId, renter = renterId, owner = ownerId,
       startDate = startD, endDate = endD, monthlyRent = rent, securityDeposit = deposit,
       status = Pending, paymentStatus = PaymentPending,
       specialRequests = map_option trim requests, paymentHistory = [],
       givenTotalAmount = None \<rparr>"

text \<open>A new document that has a \<open>totalAmount\<close>, as the document to store.\<close>

definition with_totalAmount :: "new_booking \<Rightarrow> int \<Rightarrow> booking" where
  "with_totalAmount doc t =
     \<lparr> bookingId = bookingId doc, property = property doc, renter = renter doc,
       owner = owner doc, startDate = startDate doc, endDate = endDate doc,
       monthlyRent = monthlyRent doc, securityDeposit = securityDeposit doc,
       status = status doc, paymentStatus = paymentStatus doc,
       specialRequests = specialRequests doc, paymentHistory = paymentHistory doc,
       totalAmount = t \<rparr>"

text \<open>
  \<open>save()\<close> of a new document. Mongoose runs its built-in validation before the hooks
  that a schema registers with \<open>pre('save')\<close>: first the validators, \<open>required\<close> on
  \<open>totalAmount\<close> among them, then the hook, then the insert. A document without a
  \<open>totalAmount\<close> is rejected before the hook could assign one. All the paths given to the
  constructor count as modified. An \<open>_id\<close> already in the collection is a duplicate-key
  error. Every error of \<open>save()\<close> reaches the \<open>catch\<close> of the route: 500.
\<close>

definition save_new :: "new_booking \<Rightarrow> store \<Rightarrow> (error + booking) \<times> store" where
  "save_new doc st =
     (case givenTotalAmount doc of
        None \<Rightarrow> (Inl ServerError, st)
      | Some t \<Rightarrow>
          if \<not> validate UNIV doc then (Inl ServerError, st)
          else
            let b = pre_save UNIV (with_totalAmount doc t) in
            if findById (bookingId b) (bookings st) \<noteq> None then (Inl ServerError, st)
            else (Inr b, st\<lparr>bookings := bookings st @ [b]\<rparr>))"

text \<open>\<open>save()\<close> of a document that was loaded from the collection and then changed.\<close>

definition save :: "path set \<Rightarrow> booking \<Rightarrow> store \<Rightarrow> (error + booking) \<times> store" where
  "save modified doc st =
     (if \<not> validate modified doc then (Inl ServerError, st)
      else
        let b = pre_save modified doc in
        (Inr b, st\<lparr>bookings := updateOne b (bookings st)\<rparr>))"

text \<open>
  The method \<open>addPayment\<close>, before its \<open>save()\<close>: the push, the \<open>reduce\<close> over the history,
  and the two-branch update of \<open>paymentStatus\<close>. The sum is exact in the source when every
  amount and every partial sum is a safe integer (\<open>exact_sums\<close> below).
\<close>

definition addPayment :: "booking \<Rightarrow> payment \<Rightarrow> booking" where
  "addPayment b paymentData =
     (let history = paymentHistory b @ [paymentData];
          totalPaid = foldl (\<lambda>sum p. sum + amount p) 0 history
      in if totalPaid \<ge> totalAmount b
         then b\<lparr>paymentHistory := history, paymentStatus := Paid\<rparr>
         else if totalPaid > 0
         then b\<lparr>paymentHistory := history, paymentStatus := Partial\<rparr>
         else b\<lparr>paymentHistory := history\<rparr>)"

text \<open>
  The partial sums of \<open>reduce\<close>, from the accumulator \<open>acc\<close> on, and the amounts are safe
  integers.
\<close>

fun exact_sums :: "int \<Rightarrow> payment list \<Rightarrow> bool" where
  "exact_sums acc [] = safe_integer acc"
| "exact_sums acc (p # ps) =
     (safe_integer acc \<and> safe_integer (amount p) \<and> exact_sums (acc + amount p) ps)"

section \<open>The booking routes\<close>

text \<open>
  The filter of the conflict query of \<open>POST /api/bookings\<close>:
  \<open>{ property, status: {$in: ['approved','active']},
      $or: [{ startDate: {$lte: endDate}, endDate: {$gte: startDate} }] }\<close>.
\<close>

definition conflictFilter :: "objectId \<Rightarrow> date \<Rightarrow> date \<Rightarrow> booking \<Rightarrow> bool" where
  "conflictFilter propertyId startD endD b \<longleftrightarrow>
     property b = propertyId \<and>
     status b \<in> {Approved, Active} \<and>
     (startDate b \<le> endD \<and> endDate b \<ge> startD)"

definition conflictingBooking ::
  "objectId \<Rightarrow> date \<Rightarrow> date \<Rightarrow> booking list \<Rightarrow> booking option" where
  "conflictingBooking propertyId startD endD bs = find (conflictFilter propertyId startD endD) bs"

text \<open>
  \<open>POST /api/bookings\<close>. \<open>u\<close> is \<open>req.user\<close>, \<open>newId\<close> the \<open>_id\<close> the driver gives the new
  document. The property is loaded with \<open>populate('owner')\<close>; reading \<open>property.owner._id\<close>
  of an owner that does not exist throws, which the \<open>catch\<close> turns into a 500. The route
  has the responses 403 (\<open>RenterRoleRequired\<close>), 404 (\<open>PropertyNotFound\<close>), 400
  (\<open>PropertyNotAvailable\<close>, \<open>AlreadyBooked\<close>), 500 (\<open>ServerError\<close>) and 201.
\<close>

definition createBooking ::
  "store \<Rightarrow> user \<Rightarrow> objectId \<Rightarrow> objectId \<Rightarrow> date \<Rightarrow> date \<Rightarrow> js_string option
     \<Rightarrow> (error + booking) \<times> store" where
  "createBooking st u newId propertyId startD endD requests =
     (if role u \<noteq> Renter then (Inl RenterRoleRequired, st)
      else case properties st propertyId of
        None \<Rightarrow> (Inl PropertyNotFound, st)
      | Some prop \<Rightarrow>
          if \<not> isAvailable prop then (Inl PropertyNotAvailable, st)
          else (case conflictingBooking propertyId startD endD (bookings st) of
            Some c \<Rightarrow> (Inl AlreadyBooked, st)
          | None \<Rightarrow>
              if propertyOwner prop \<notin> users st then (Inl ServerError, st)
              else save_new
                (new_Booking newId propertyId (userId u) (propertyOwner prop) startD endD
                   (rentPrice prop) (propertyDeposit prop) requests) st))"

text \<open>
  \<open>PUT /api/bookings/:id/status\<close>. \<open>Property.findByIdAndUpdate\<close> on a missing property
  changes nothing.
\<close>

definition setUnavailable :: "objectId \<Rightarrow> store \<Rightarrow> store" where
  "setUnavailable propertyId st =
     (case properties st propertyId of
        None \<Rightarrow> st
      | Some prop \<Rightarrow> st\<lparr>properties := (properties st)(propertyId \<mapsto> prop\<lparr>isAvailable := False\<rparr>)\<rparr>)"

definition updateStatus ::
  "store \<Rightarrow> user \<Rightarrow> objectId \<Rightarrow> booking_status \<Rightarrow> (error + booking) \<times> store" where
  "updateStatus st u i newStatus =
     (if role u \<noteq> Owner then (Inl OwnerRoleRequired, st)
      else case findById i (bookings st) of
        None \<Rightarrow> (Inl BookingNotFound, st)
      | Some b \<Rightarrow>
          if owner b \<noteq> userId u then (Inl NotAuthorized, st)
          else
            let b' = b\<lparr>status := newStatus\<rparr>;
                st' = (if newStatus = Approved then setUnavailable (property b) st else st)
            in save {P_status} b' st')"

text \<open>\<open>POST /api/bookings/:id/payment\<close>.\<close>

definition addPaymentRoute ::
  "store \<Rightarrow> user \<Rightarrow> objectId \<Rightarrow> payment \<Rightarrow> (error + booking) \<times> store" where
  "addPaymentRoute st u i paymentData =
     (case findById i (bookings st) of
        None \<Rightarrow> (Inl BookingNotFound, st)
      | Some b \<Rightarrow>
          let isAuthorized = (renter b = userId u \<or> owner b = userId u) in
          if \<not> isAuthorized then (Inl NotAuthorized, st)
          else save {P_paymentHistory, P_paymentStatus} (addPayment b paymentData) st)"

text \<open>
  \<open>PUT /api/properties/:id\<close>: \<open>Object.assign(property, req.body)\<close> is any change \<open>body\<close> of
  the document; the \<open>Property\<close> schema has \<open>min: 0\<close> on \<open>rentPrice\<close> and \<open>securityDeposit\<close>
  (its other validators are on fields outside \<open>property_doc\<close>), and this route answers a
  validation error with 400.
\<close>

definition updateProperty ::
  "store \<Rightarrow> user \<Rightarrow> objectId \<Rightarrow> (property_doc \<Rightarrow> property_doc)
     \<Rightarrow> (error + property_doc) \<times> store" where
  "updateProperty st u propertyId body =
     (if role u \<noteq> Owner then (Inl OwnerRoleRequired, st)
      else case properties st propertyId of
        None \<Rightarrow> (Inl PropertyNotFound, st)
      | Some prop \<Rightarrow>
          if propertyOwner prop \<noteq> userId u then (Inl NotAuthorized, st)
          else
            let prop' = body prop in
            if rentPrice prop' < 0 \<or> propertyDeposit prop' < 0 then (Inl ValidationError, st)
            else (Inr prop', st\<lparr>properties := (properties st)(propertyId \<mapsto> prop')\<rparr>))"

section \<open>Orders and invariants\<close>

text \<open>
  The order \<open>pending \<rightarrow> partial \<rightarrow> paid\<close> in which the specification reads the
  payment status; \<open>overdue\<close> is outside of it.
\<close>

fun payment_status_le :: "payment_status \<Rightarrow> payment_status \<Rightarrow> bool" where
  "payment_status_le PaymentPending s = (s \<noteq> Overdue)"
| "payment_status_le Partial s = (s = Partial \<or> s = Paid)"
| "payment_status_le Paid s = (s = Paid)"
| "payment_status_le Overdue s = (s = Overdue)"

text \<open>The total of a booking agrees with its rent, its deposit and its dates.\<close>

definition total_ok :: "booking \<Rightarrow> bool" where
  "total_ok b \<longleftrightarrow> totalAmount b = monthlyRent b * durationInMonths b + securityDeposit b"

text \<open>
  The payment status of a booking is backed by its history: \<open>partial\<close> by a positive sum,
  \<open>paid\<close> by a sum that reaches the total. No route sets \<open>overdue\<close>.
\<close>

definition ledger_ok :: "booking \<Rightarrow> bool" where
  "ledger_ok b \<longleftrightarrow>
     (case paymentStatus b of
        PaymentPending \<Rightarrow> True
      | Partial \<Rightarrow> 0 < sum_list (map amount (paymentHistory b))
      | Paid \<Rightarrow> totalAmount b \<le> sum_list (map amount (paymentHistory b))
      | Overdue \<Rightarrow> False)"

section \<open>Example data\<close>

text \<open>1 January, 1 February, 15 February and 1 March 2024, 00:00 UTC.\<close>

definition jan1 :: date where "jan1 = 1704067200000"
definition feb1 :: date where "feb1 = 1706745600000"
definition feb15 :: date where "feb15 = 1707955200000"
definition mar1 :: date where "mar1 = 1709251200000"

definition alice :: user where "alice = \<lparr>userId = 10, role = Renter\<rparr>"
definition bob :: user where "bob = \<lparr>userId = 20, role = Owner\<rparr>"

definition flat :: property_doc where
  "flat = \<lparr>propertyOwner = 20, rentPrice = 1000, propertyDeposit = 500, isAvailable = True\<rparr>"

text \<open>A booking in the collection, as seeded: 31 days, 2 months.\<close>

definition booking1 :: booking where
  "booking1 =
     \<lparr> bookingId = 30, property = 7, renter = 10, owner = 20,
       startDate = jan1, endDate = feb1, monthlyRent = 1000, securityDeposit = 500,
       status = Pending, paymentStatus = PaymentPending,
       specialRequests = None, paymentHistory = [], totalAmount = 2500 \<rparr>"

definition store0 :: store where
  "store0 = \<lparr>properties = [7 \<mapsto> flat], bookings = [], users = {10, 20}\<rparr>"

definition approved1 :: booking where
  "approved1 = booking1\<lparr>status := Approved\<rparr>"

definition store1 :: store where
  "store1 = store0\<lparr>bookings := [booking1]\<rparr>"

definition store2 :: store where
  "store2 = store0\<lparr>bookings := [approved1]\<rparr>"

definition store3 :: store where
  "store3 = \<lparr>properties = [7 \<mapsto> flat\<lparr>isAvailable := False\<rparr>], bookings = [approved1],
              users = {10, 20}\<rparr>"

definition pay :: "int \<Rightarrow> payment" where
  "pay a = \<lparr>amount = a, paymentMethod = Cash, description = [], transactionId = []\<rparr>"

definition partial1 :: booking where
  "partial1 = booking1\<lparr>paymentHistory := [pay 1500], paymentStatus := Partial\<rparr>"

definition paid1 :: booking where
  "paid1 = booking1\<lparr>paymentHistory := [pay 2500], paymentStatus := Paid\<rparr>"

section \<open>Facts about the model\<close>

subsection \<open>Documents and the collection\<close>

lemma pre_save_fields [simp]:
  "bookingId (pre_save m b) = bookingId b" "property (pre_save m b) = property b"
  "renter (pre_save m b) = renter b" "owner (pre_save m b) = owner b"
  "startDate (pre_save m b) = startDate b" "endDate (pre_save m b) = endDate b"
  "monthlyRent (pre_save m b) = monthlyRent b" "securityDeposit (pre_save m b) = securityDeposit b"
  "status (pre_save m b) = status b" "paymentStatus (pre_save m b) = paymentStatus b"
  "specialRequests (pre_save m b) = specialRequests b"
  "paymentHistory (pre_save m b) = paymentHistory b"
  by (simp_all add: pre_save_def Let_def)

lemma pre_save_total:
  "P_monthlyRent \<in> m \<or> P_securityDeposit \<in> m \<or> P_startDate \<in> m \<or> P_endDate \<in> m
     \<Longrightarrow> totalAmount (pre_save m b) = monthlyRent b * durationInMonths b + securityDeposit b"
  by (auto simp add: pre_save_def durationInMonths_def Let_def)

lemma durationInMonths_cong:
  "startDate b' = startDate b \<Longrightarrow> endDate b' = endDate b \<Longrightarrow> durationInMonths b' = durationInMonths b"
  by (simp add: durationInMonths_def)

lemma new_Booking_fields:
  "bookingId (new_Booking n p rn ow s e rent dep rq) = n"
  "property (new_Booking n p rn ow s e rent dep rq) = p"
  "renter (new_Booking n p rn ow s e rent dep rq) = rn"
  "owner (new_Booking n p rn ow s e rent dep rq) = ow"
  "startDate (new_Booking n p rn ow s e rent dep rq) = s"
  "endDate (new_Booking n p rn ow s e rent dep rq) = e"
  "monthlyRent (new_Booking n p rn ow s e rent dep rq) = rent"
  "securityDeposit (new_Booking n p rn ow s e rent dep rq) = dep"
  "status (new_Booking n p rn ow s e rent dep rq) = Pending"
  "paymentStatus (new_Booking n p rn ow s e rent dep rq) = PaymentPending"
  "specialRequests (new_Booking n p rn ow s e rent dep rq) = map_option trim rq"
  "paymentHistory (new_Booking n p rn ow s e rent dep rq) = []"
  "givenTotalAmount (new_Booking n p rn ow s e rent dep rq) = None"
  by (simp_all add: new_Booking_def)

lemma with_totalAmount_fields [simp]:
  "bookingId (with_totalAmount doc t) = bookingId doc"
  "property (with_totalAmount doc t) = property doc"
  "renter (with_totalAmount doc t) = renter doc" "owner (with_totalAmount doc t) = owner doc"
  "startDate (with_totalAmount doc t) = startDate doc"
  "endDate (with_totalAmount doc t) = endDate doc"
  "monthlyRent (with_totalAmount doc t) = monthlyRent doc"
  "securityDeposit (with_totalAmount doc t) = securityDeposit doc"
  "status (with_totalAmount doc t) = status doc"
  "paymentStatus (with_totalAmount doc t) = paymentStatus doc"
  "specialRequests (with_totalAmount doc t) = specialRequests doc"
  "paymentHistory (with_totalAmount doc t) = paymentHistory doc"
  "totalAmount (with_totalAmount doc t) = t"
  by (simp_all add: with_totalAmount_def)

lemma with_totalAmount_update:
  "(with_totalAmount doc t)\<lparr>totalAmount := t'\<rparr> = with_totalAmount doc t'"
  by (simp add: with_totalAmount_def)

lemma save_new_without_total:
  "givenTotalAmount doc = None \<Longrightarrow> save_new doc st = (Inl ServerError, st)"
  by (simp add: save_new_def)

lemma pre_save_recomputes:
  "P_monthlyRent \<in> m \<or> P_securityDeposit \<in> m \<or> P_startDate \<in> m \<or> P_endDate \<in> m
     \<Longrightarrow> pre_save m b
         = b\<lparr>totalAmount := monthlyRent b * durationInMonths b + securityDeposit b\<rparr>"
  by (auto simp add: pre_save_def durationInMonths_def Let_def)

lemma findById_Some: "findById i bs = Some b \<Longrightarrow> b \<in> set bs \<and> bookingId b = i"
  by (auto simp: findById_def find_Some_iff)

lemma set_updateOne: "set (updateOne b bs) \<subseteq> insert b (set bs)"
  by (induction bs) auto

lemma findById_updateOne:
  "findById i (updateOne b' bs) =
     (if i = bookingId b' \<and> findById i bs \<noteq> None then Some b' else findById i bs)"
  by (induction bs) (auto simp: findById_def)

lemma findById_updateOne_same:
  "findById i bs = Some b \<Longrightarrow> bookingId b' = i \<Longrightarrow> findById i (updateOne b' bs) = Some b'"
  by (simp add: findById_updateOne)

lemma findById_append:
  "findById i (bs @ [b]) = (case findById i bs of Some x \<Rightarrow> Some x
     | None \<Rightarrow> if bookingId b = i then Some b else None)"
  by (induction bs) (auto simp: findById_def)

lemma save_status: "save {P_status} d st = (Inr d, st\<lparr>bookings := updateOne d (bookings st)\<rparr>)"
  by (simp add: save_def Let_def pre_save_def validate_def)

lemma save_payment:
  "save {P_paymentHistory, P_paymentStatus} d st
     = (Inr d, st\<lparr>bookings := updateOne d (bookings st)\<rparr>)"
  by (simp add: save_def Let_def pre_save_def validate_def)

lemma save_recomputes:
  assumes "validate m d"
    and "P_monthlyRent \<in> m \<or> P_securityDeposit \<in> m \<or> P_startDate \<in> m \<or> P_endDate \<in> m"
  shows "save m d st =
     (Inr (d\<lparr>totalAmount := monthlyRent d * durationInMonths d + securityDeposit d\<rparr>),
      st\<lparr>bookings :=
        updateOne (d\<lparr>totalAmount := monthlyRent d * durationInMonths d + securityDeposit d\<rparr>)
          (bookings st)\<rparr>)"
  using assms(1) by (simp add: save_def Let_def pre_save_recomputes [OF assms(2)])

lemma save_new_recomputes:
  assumes "givenTotalAmount n = Some t" and "validate UNIV n"
    and "findById (bookingId n) (bookings st) = None"
  shows "save_new n st =
     (Inr (with_totalAmount n (monthlyRent n * durationInMonths n + securityDeposit n)),
      st\<lparr>bookings := bookings st @
        [with_totalAmount n (monthlyRent n * durationInMonths n + securityDeposit n)]\<rparr>)"
proof -
  have "pre_save UNIV (with_totalAmount n t)
      = with_totalAmount n (monthlyRent n * durationInMonths n + securityDeposit n)"
    by (simp add: pre_save_recomputes with_totalAmount_update)
      (simp add: durationInMonths_def)
  with assms show ?thesis by (simp add: save_new_def Let_def)
qed

lemma bookings_setUnavailable [simp]: "bookings (setUnavailable p st) = bookings st"
  by (simp add: setUnavailable_def split: option.split)

lemma properties_setUnavailable:
  "properties (setUnavailable p st) =
     (case properties st p of None \<Rightarrow> properties st
      | Some d \<Rightarrow> (properties st)(p \<mapsto> d\<lparr>isAvailable := False\<rparr>))"
  by (simp add: setUnavailable_def split: option.split)

lemma bookings_updateProperty [simp]: "bookings (snd (updateProperty st u p body)) = bookings st"
  by (simp add: updateProperty_def Let_def split: option.split)

subsection \<open>The number of months\<close>

lemma ceiling_months: "\<lceil>real_of_int d / (1000 * 60 * 60 * 24 * 30)\<rceil> = - ((- d) div 2592000000)"
proof -
  have "real_of_int d / (1000 * 60 * 60 * 24 * 30) = real_of_int d / real_of_int 2592000000"
    by simp
  then show ?thesis by (simp only: ceiling_divide_eq_div)
qed

lemma months_as_days:
  "durationInMonths b = \<lceil>(real_of_int (endDate b - startDate b) / (1000 * 60 * 60 * 24)) / 30\<rceil>"
  by (simp add: durationInMonths_def)

lemma months_ge_1: "startDate b < endDate b \<Longrightarrow> 1 \<le> durationInMonths b"
  unfolding durationInMonths_def ceiling_months by simp

lemma months_30_days:
  "endDate b - startDate b = 30 * (1000 * 60 * 60 * 24) \<Longrightarrow> durationInMonths b = 1"
  by (simp add: durationInMonths_def)

lemma months_31_days:
  "endDate b - startDate b = 31 * (1000 * 60 * 60 * 24) \<Longrightarrow> durationInMonths b = 2"
  unfolding durationInMonths_def ceiling_months by simp

subsection \<open>Payments\<close>

lemma foldl_amount: "foldl (\<lambda>sum p. sum + amount p) a ps = a + sum_list (map amount ps)"
  by (induction ps arbitrary: a) auto

lemma addPayment_fields [simp]:
  "bookingId (addPayment b p) = bookingId b" "property (addPayment b p) = property b"
  "renter (addPayment b p) = renter b" "owner (addPayment b p) = owner b"
  "startDate (addPayment b p) = startDate b" "endDate (addPayment b p) = endDate b"
  "monthlyRent (addPayment b p) = monthlyRent b"
  "securityDeposit (addPayment b p) = securityDeposit b"
  "totalAmount (addPayment b p) = totalAmount b" "status (addPayment b p) = status b"
  "specialRequests (addPayment b p) = specialRequests b"
  "paymentHistory (addPayment b p) = paymentHistory b @ [p]"
  by (simp_all add: addPayment_def Let_def)

lemma addPayment_paymentStatus:
  "paymentStatus (addPayment b p) =
     (if sum_list (map amount (paymentHistory b @ [p])) \<ge> totalAmount b then Paid
      else if 0 < sum_list (map amount (paymentHistory b @ [p])) then Partial
      else paymentStatus b)"
  by (simp add: addPayment_def Let_def foldl_amount)

lemma payment_status_le_refl: "payment_status_le s s"
  by (cases s) simp_all

lemma payment_status_le_trans:
  "payment_status_le a b \<Longrightarrow> payment_status_le b c \<Longrightarrow> payment_status_le a c"
  by (cases a; cases b; cases c) simp_all

lemma addPayment_step:
  assumes "ledger_ok b" and "0 \<le> amount p"
  shows "ledger_ok (addPayment b p)"
    and "payment_status_le (paymentStatus b) (paymentStatus (addPayment b p))"
  using assms
  by (auto simp: ledger_ok_def addPayment_paymentStatus split: payment_status.splits)

lemma addPayment_steps:
  assumes "ledger_ok b" and "\<forall>p \<in> set ps. 0 \<le> amount p"
  shows "ledger_ok (foldl addPayment b ps)
     \<and> payment_status_le (paymentStatus b) (paymentStatus (foldl addPayment b ps))"
  using assms
proof (induction ps arbitrary: b)
  case Nil
  then show ?case by (simp add: payment_status_le_refl)
next
  case (Cons p ps)
  from Cons.prems have p: "0 \<le> amount p" and ps: "\<forall>q \<in> set ps. 0 \<le> amount q" by simp_all
  from addPayment_step [OF Cons.prems(1) p]
  have ok: "ledger_ok (addPayment b p)"
    and le: "payment_status_le (paymentStatus b) (paymentStatus (addPayment b p))" .
  from Cons.IH [OF ok ps] le show ?case
    by (auto intro: payment_status_le_trans)
qed

subsection \<open>The routes, case by case\<close>

lemma conflictingBooking_iff:
  "conflictingBooking pid s e bs \<noteq> None \<longleftrightarrow>
     (\<exists>b \<in> set bs. property b = pid \<and> status b \<in> {Approved, Active}
        \<and> startDate b \<le> e \<and> s \<le> endDate b)"
  by (auto simp: conflictingBooking_def find_None_iff conflictFilter_def)

lemma find_filter_weaker: "(\<And>x. P x \<Longrightarrow> Q x) \<Longrightarrow> find P (filter Q xs) = find P xs"
  by (induction xs) auto

lemma createBooking_new_document:
  "save_new (new_Booking n p rn ow s e rent dep rq) st = (Inl ServerError, st)"
  by (simp add: save_new_without_total new_Booking_fields)

lemma createBooking_AlreadyBooked_iff:
  assumes "role u = Renter" "properties st pid = Some prop" "isAvailable prop"
  shows "fst (createBooking st u n pid s e r) = Inl AlreadyBooked
     \<longleftrightarrow> conflictingBooking pid s e (bookings st) \<noteq> None"
  using assms
  by (auto simp: createBooking_def createBooking_new_document split: option.split)

lemma createBooking_not_AlreadyBooked:
  "conflictingBooking pid s e (bookings st) = None
     \<Longrightarrow> fst (createBooking st u n pid s e r) \<noteq> Inl AlreadyBooked"
  by (auto simp: createBooking_def createBooking_new_document split: option.split)

lemma createBooking_fails:
  "\<exists>e. createBooking st u n pid s e' rq = (Inl e, st)
     \<and> e \<in> {RenterRoleRequired, PropertyNotFound, PropertyNotAvailable, AlreadyBooked,
              ServerError}"
  by (auto simp: createBooking_def createBooking_new_document split: option.split)

lemma createBooking_checks_pass:
  assumes "role u = Renter" and "properties st pid = Some pr" and "isAvailable pr"
    and "conflictingBooking pid s e (bookings st) = None"
  shows "createBooking st u n pid s e rq = (Inl ServerError, st)"
  using assms by (simp add: createBooking_def createBooking_new_document)

lemma createBooking_reaches_save:
  assumes "role u = Renter" and "properties st pid = Some pr" and "isAvailable pr"
    and "conflictingBooking pid s e (bookings st) = None" and "propertyOwner pr \<in> users st"
  shows "createBooking st u n pid s e rq
     = save_new (new_Booking n pid (userId u) (propertyOwner pr) s e
         (rentPrice pr) (propertyDeposit pr) rq) st"
  using assms by (simp add: createBooking_def)

lemma updateStatus_found:
  assumes "findById i (bookings st) = Some b"
  shows "updateStatus st u i s =
     (if role u \<noteq> Owner then (Inl OwnerRoleRequired, st)
      else if owner b \<noteq> userId u then (Inl NotAuthorized, st)
      else save {P_status} (b\<lparr>status := s\<rparr>)
             (if s = Approved then setUnavailable (property b) st else st))"
  using assms by (simp add: updateStatus_def Let_def)

lemma updateStatus_success:
  assumes "role u = Owner" "findById i (bookings st) = Some b" "owner b = userId u"
  shows "updateStatus st u i s =
     (Inr (b\<lparr>status := s\<rparr>),
      (if s = Approved then setUnavailable (property b) st else st)
        \<lparr>bookings := updateOne (b\<lparr>status := s\<rparr>) (bookings st)\<rparr>)"
  using assms by (simp add: updateStatus_found save_status)

lemma updateStatus_Inr:
  assumes "fst (updateStatus st u i s) = Inr b'"
  shows "\<exists>b. role u = Owner \<and> findById i (bookings st) = Some b \<and> owner b = userId u
     \<and> b' = b\<lparr>status := s\<rparr>"
proof (cases "findById i (bookings st)")
  case None
  then show ?thesis using assms by (simp add: updateStatus_def split: if_splits)
next
  case (Some b)
  then show ?thesis using assms
    by (simp add: updateStatus_found save_status split: if_splits)
qed

lemma updateStatus_Inl:
  assumes "fst (updateStatus st u i s) = Inl e"
  shows "e \<in> {OwnerRoleRequired, BookingNotFound, NotAuthorized} \<and> snd (updateStatus st u i s) = st"
proof (cases "findById i (bookings st)")
  case None
  then show ?thesis using assms by (auto simp: updateStatus_def split: if_splits)
next
  case (Some b)
  then show ?thesis using assms
    by (auto simp: updateStatus_found save_status split: if_splits)
qed

lemma addPaymentRoute_found:
  assumes "findById i (bookings st) = Some b"
  shows "addPaymentRoute st u i p =
     (if \<not> (renter b = userId u \<or> owner b = userId u) then (Inl NotAuthorized, st)
      else save {P_paymentHistory, P_paymentStatus} (addPayment b p) st)"
  using assms by (simp add: addPaymentRoute_def Let_def)

lemma addPaymentRoute_success:
  assumes "findById i (bookings st) = Some b" "renter b = userId u \<or> owner b = userId u"
  shows "addPaymentRoute st u i p =
     (Inr (addPayment b p), st\<lparr>bookings := updateOne (addPayment b p) (bookings st)\<rparr>)"
  using assms by (simp add: addPaymentRoute_found save_payment)

lemma addPaymentRoute_Inr:
  assumes "fst (addPaymentRoute st u i p) = Inr b'"
  shows "\<exists>b. findById i (bookings st) = Some b \<and> (renter b = userId u \<or> owner b = userId u)
     \<and> b' = addPayment b p"
proof (cases "findById i (bookings st)")
  case None
  then show ?thesis using assms by (simp add: addPaymentRoute_def)
next
  case (Some b)
  then show ?thesis using assms
    by (simp add: addPaymentRoute_found save_payment split: if_splits)
qed

lemma addPaymentRoute_Inl:
  assumes "fst (addPaymentRoute st u i p) = Inl e"
  shows "e \<in> {BookingNotFound, NotAuthorized} \<and> snd (addPaymentRoute st u i p) = st"
proof (cases "findById i (bookings st)")
  case None
  then show ?thesis using assms by (auto simp: addPaymentRoute_def)
next
  case (Some b)
  then show ?thesis using assms
    by (auto simp: addPaymentRoute_found save_payment split: if_splits)
qed

subsection \<open>The total is kept by every route\<close>

lemma total_ok_pre_save: "total_ok d \<Longrightarrow> total_ok (pre_save m d)"
  by (simp add: total_ok_def pre_save_def Let_def durationInMonths_def)

lemma total_ok_pre_save_UNIV: "total_ok (pre_save UNIV d)"
  by (simp add: total_ok_def pre_save_def Let_def durationInMonths_def)

lemma total_ok_status: "total_ok (b\<lparr>status := s\<rparr>) = total_ok b"
  by (simp add: total_ok_def durationInMonths_def)

lemma total_ok_addPayment: "total_ok (addPayment b p) = total_ok b"
  by (simp add: total_ok_def durationInMonths_def)

lemma total_ok_save:
  assumes "\<forall>x \<in> set (bookings st). total_ok x" and "total_ok d"
  shows "\<forall>x \<in> set (bookings (snd (save m d st))). total_ok x"
proof -
  have "total_ok (pre_save m d)" using assms(2) by (rule total_ok_pre_save)
  then show ?thesis
    using assms(1) set_updateOne [of "pre_save m d" "bookings st"]
    by (auto simp: save_def Let_def)
qed

lemma total_ok_save_new:
  assumes "\<forall>x \<in> set (bookings st). total_ok x"
  shows "\<forall>x \<in> set (bookings (snd (save_new d st))). total_ok x"
  using assms total_ok_pre_save_UNIV
  by (auto simp: save_new_def Let_def split: option.split)

lemma total_ok_createBooking:
  assumes "\<forall>x \<in> set (bookings st). total_ok x"
  shows "\<forall>x \<in> set (bookings (snd (createBooking st u n p s e r))). total_ok x"
proof -
  from createBooking_fails [of st u n p s e r]
  have "snd (createBooking st u n p s e r) = st" by auto
  with assms show ?thesis by simp
qed

lemma total_ok_updateStatus:
  assumes inv: "\<forall>x \<in> set (bookings st). total_ok x"
  shows "\<forall>x \<in> set (bookings (snd (updateStatus st u i s))). total_ok x"
proof (cases "findById i (bookings st)")
  case None
  then show ?thesis using inv by (simp add: updateStatus_def)
next
  case (Some b)
  define st' where "st' = (if s = Approved then setUnavailable (property b) st else st)"
  have "bookings st' = bookings st" by (simp add: st'_def)
  with inv have inv': "\<forall>x \<in> set (bookings st'). total_ok x" by simp
  have "total_ok (b\<lparr>status := s\<rparr>)"
    using inv findById_Some [OF Some] by (simp add: total_ok_status)
  with inv' have saved: "\<forall>x \<in> set (bookings (snd (save {P_status} (b\<lparr>status := s\<rparr>) st'))). total_ok x"
    by (rule total_ok_save)
  show ?thesis
  proof (cases "role u \<noteq> Owner \<or> owner b \<noteq> userId u")
    case True
    then have "snd (updateStatus st u i s) = st"
      by (auto simp: updateStatus_found [OF Some])
    then show ?thesis using inv by simp
  next
    case False
    then have "updateStatus st u i s = save {P_status} (b\<lparr>status := s\<rparr>) st'"
      by (simp add: updateStatus_found [OF Some] st'_def)
    then show ?thesis using saved by simp
  qed
qed

lemma total_ok_addPaymentRoute:
  assumes inv: "\<forall>x \<in> set (bookings st). total_ok x"
  shows "\<forall>x \<in> set (bookings (snd (addPaymentRoute st u i p))). total_ok x"
proof (cases "findById i (bookings st)")
  case None
  then show ?thesis using inv by (simp add: addPaymentRoute_def)
next
  case (Some b)
  have "total_ok (addPayment b p)"
    using inv findById_Some [OF Some] by (simp add: total_ok_addPayment)
  with inv have saved:
    "\<forall>x \<in> set (bookings (snd (save {P_paymentHistory, P_paymentStatus} (addPayment b p) st))). total_ok x"
    by (rule total_ok_save)
  show ?thesis
  proof (cases "renter b = userId u \<or> owner b = userId u")
    case True
    then have "addPaymentRoute st u i p
        = save {P_paymentHistory, P_paymentStatus} (addPayment b p) st"
      by (simp add: addPaymentRoute_found [OF Some])
    then show ?thesis using saved by simp
  next
    case False
    then have "snd (addPaymentRoute st u i p) = st"
      by (simp add: addPaymentRoute_found [OF Some])
    then show ?thesis using inv by simp
  qed
qed

subsection \<open>The example data\<close>

lemma booking1_fields:
  "bookingId booking1 = 30" "property booking1 = 7" "renter booking1 = 10" "owner booking1 = 20"
  "status booking1 = Pending" "paymentStatus booking1 = PaymentPending"
  "totalAmount booking1 = 2500" "paymentHistory booking1 = []"
  by (simp_all add: booking1_def)

lemma flat_fields:
  "propertyOwner flat = 20" "rentPrice flat = 1000" "propertyDeposit flat = 500" "isAvailable flat"
  by (simp_all add: flat_def)

lemma store0_facts:
  "properties store0 7 = Some flat" "bookings store0 = []" "users store0 = {10, 20}"
  by (simp_all add: store0_def)

lemma store0_no_conflict: "conflictingBooking 7 s e (bookings store0) = None"
  by (simp add: store0_facts conflictingBooking_def)

lemma store0_checks_pass:
  "role alice = Renter" "properties store0 7 = Some flat" "isAvailable flat"
  "propertyOwner flat \<in> users store0"
  by (simp_all add: alice_def store0_facts flat_fields)

lemma findById_store1: "findById 30 (bookings store1) = Some booking1"
  by (simp add: store1_def findById_def booking1_def)

lemma addPaymentRoute_store1:
  "addPaymentRoute store1 alice 30 p
     = (Inr (addPayment booking1 p), store0\<lparr>bookings := [addPayment booking1 p]\<rparr>)"
proof -
  have "renter booking1 = userId alice \<or> owner booking1 = userId alice"
    by (simp add: booking1_fields alice_def)
  from addPaymentRoute_success [OF findById_store1 this]
  show ?thesis by (simp add: store1_def booking1_fields)
qed

lemma addPayment_booking1_1500: "addPayment booking1 (pay 1500) = partial1"
  by (simp add: addPayment_def partial1_def booking1_def pay_def)

lemma addPayment_booking1_2500: "addPayment booking1 (pay 2500) = paid1"
  by (simp add: addPayment_def paid1_def booking1_def pay_def)

section \<open>The properties of the booking lifecycle\<close>

subsection \<open>When two date ranges conflict\<close>

text \<open>
  Claim C1, as the code has it. The conflict check of the create route reports a conflict
  for the requested range from \<open>s2\<close> to \<open>e2\<close> exactly when some approved or active booking of
  the property, from \<open>s1\<close> to \<open>e1\<close>, has \<open>s1 \<le> e2\<close> and \<open>s2 \<le> e1\<close>: the comparison is the
  one of closed intervals, so two ranges that touch at an endpoint do conflict. For a
  renter and an available property the route answers "already booked" in exactly this case.
\<close>

theorem conflict_iff_closed_overlap:
  "(conflictingBooking pid s2 e2 bs \<noteq> None \<longleftrightarrow>
      (\<exists>b \<in> set bs. property b = pid \<and> status b \<in> {Approved, Active}
         \<and> startDate b \<le> e2 \<and> s2 \<le> endDate b))
   \<and> (role u = Renter \<and> properties st pid = Some prop \<and> isAvailable prop \<longrightarrow>
        (fst (createBooking st u n pid s2 e2 r) = Inl AlreadyBooked \<longleftrightarrow>
           (\<exists>b \<in> set (bookings st). property b = pid \<and> status b \<in> {Approved, Active}
              \<and> startDate b \<le> e2 \<and> s2 \<le> endDate b)))"
  using createBooking_AlreadyBooked_iff [of u st pid "prop" n s2 e2 r]
  by (simp only: conflictingBooking_iff) blast

theorem conflict_iff_closed_overlap_witness:
  "conflictingBooking 7 feb15 mar1 (bookings store2) = None
   \<and> fst (createBooking store2 alice 2 7 feb15 mar1 None) \<noteq> Inl AlreadyBooked"
proof -
  have p: "role alice = Renter \<and> properties store2 7 = Some flat \<and> isAvailable flat"
    by (simp add: alice_def store2_def store0_def flat_def)
  have n: "\<not> (\<exists>b \<in> set (bookings store2). property b = 7 \<and> status b \<in> {Approved, Active}
              \<and> startDate b \<le> mar1 \<and> feb15 \<le> endDate b)"
    by (simp add: store2_def store0_def approved1_def booking1_def feb1_def feb15_def)
  note t = conflict_iff_closed_overlap [of 7 feb15 mar1 "bookings store2" alice store2 flat 2 None]
  from t n have a: "conflictingBooking 7 feb15 mar1 (bookings store2) = None" by blast
  from t p n have b: "fst (createBooking store2 alice 2 7 feb15 mar1 None) \<noteq> Inl AlreadyBooked"
    by blast
  from a b show ?thesis by simp
qed

text \<open>
  The half-open reading fails: with an approved booking from 1 January to 1 February, a
  request from 1 February to 1 March is refused as already booked.
\<close>

theorem conflict_touching_counterexample:
  "conflictingBooking 7 feb1 mar1 [approved1] = Some approved1
   \<and> \<not> (startDate approved1 < mar1 \<and> feb1 < endDate approved1)
   \<and> createBooking store2 alice 2 7 feb1 mar1 None = (Inl AlreadyBooked, store2)"
  by (simp add: createBooking_def conflictingBooking_def conflictFilter_def store2_def store0_def
      approved1_def booking1_def alice_def flat_def jan1_def feb1_def mar1_def)

subsection \<open>Status updates\<close>

text \<open>
  Claim C2, as the code has it. The status route has no transition table: when the caller
  has the owner role and is the owner of the booking, every requested status is stored,
  whatever the current status, and the stored booking is the old one with the new status.
  The route fails only for a caller without the owner role, an unknown booking or a caller
  who is not the owner of the booking, and a failure leaves the database as it was.
\<close>

theorem updateStatus_no_transition_check:
  "(role u = Owner \<and> findById i (bookings st) = Some b \<and> owner b = userId u \<longrightarrow>
      fst (updateStatus st u i s) = Inr (b\<lparr>status := s\<rparr>)
      \<and> findById i (bookings (snd (updateStatus st u i s))) = Some (b\<lparr>status := s\<rparr>))
   \<and> (\<forall>e. fst (updateStatus st u i s) = Inl e \<longrightarrow>
         e \<in> {OwnerRoleRequired, BookingNotFound, NotAuthorized}
         \<and> snd (updateStatus st u i s) = st)"
proof -
  have "fst (updateStatus st u i s) = Inr (b\<lparr>status := s\<rparr>)
      \<and> findById i (bookings (snd (updateStatus st u i s))) = Some (b\<lparr>status := s\<rparr>)"
    if a: "role u = Owner \<and> findById i (bookings st) = Some b \<and> owner b = userId u"
  proof -
    from a have "bookingId (b\<lparr>status := s\<rparr>) = i"
      using findById_Some [of i "bookings st" b] by simp
    with a show ?thesis
      by (simp add: updateStatus_success findById_updateOne_same)
  qed
  moreover have "e \<in> {OwnerRoleRequired, BookingNotFound, NotAuthorized}
         \<and> snd (updateStatus st u i s) = st"
    if "fst (updateStatus st u i s) = Inl e" for e
    using that by (rule updateStatus_Inl)
  ultimately show ?thesis by blast
qed

theorem updateStatus_no_transition_check_witness:
  "status booking1 = Pending
   \<and> fst (updateStatus store1 bob 30 Active) = Inr (booking1\<lparr>status := Active\<rparr>)
   \<and> findById 30 (bookings (snd (updateStatus store1 bob 30 Active)))
       = Some (booking1\<lparr>status := Active\<rparr>)
   \<and> fst (updateStatus store1 alice 30 Approved) = Inl OwnerRoleRequired
   \<and> snd (updateStatus store1 alice 30 Approved) = store1"
proof -
  have "role bob = Owner" "owner booking1 = userId bob" "status booking1 = Pending"
    by (simp_all add: bob_def booking1_def)
  with updateStatus_no_transition_check [of bob 30 store1 booking1 Active] findById_store1
  have ok: "status booking1 = Pending
   \<and> fst (updateStatus store1 bob 30 Active) = Inr (booking1\<lparr>status := Active\<rparr>)
   \<and> findById 30 (bookings (snd (updateStatus store1 bob 30 Active)))
       = Some (booking1\<lparr>status := Active\<rparr>)" by blast
  have e: "fst (updateStatus store1 alice 30 Approved) = Inl OwnerRoleRequired"
    by (simp add: updateStatus_def alice_def)
  with updateStatus_no_transition_check [of alice 30 store1 booking1 Approved]
  have "snd (updateStatus store1 alice 30 Approved) = store1" by blast
  with ok e show ?thesis by simp
qed

text \<open>The owner moves a pending booking straight to completed, and the change is stored.\<close>

theorem pending_to_completed_counterexample:
  "status booking1 = Pending
   \<and> updateStatus store1 bob 30 Completed
       = (Inr (booking1\<lparr>status := Completed\<rparr>),
          store0\<lparr>bookings := [booking1\<lparr>status := Completed\<rparr>]\<rparr>)"
  by (simp add: updateStatus_def Let_def findById_def save_status store1_def store0_def bob_def
      booking1_def)

subsection \<open>The total amount\<close>

text \<open>
  Claim C3. Whenever a booking is saved with its rent, its deposit, its start or its end
  modified, the document that is stored is the saved one with
  \<open>totalAmount = monthlyRent * months + securityDeposit\<close>, where \<open>months\<close> is the ceiling of
  the number of days between start and end divided by 30: for a stored document that a
  request has changed, and for a new document that has passed the validators. The routes
  keep this equation on every stored booking. \<open>months\<close> is at least 1 when the end is after
  the start; exactly 30 days are 1 month and 31 days are 2 months. The saved values are
  taken in the range in which the arithmetic of the source is exact.
\<close>

theorem totalAmount_months_formula:
  "(findById (bookingId d) (bookings st) \<noteq> None \<and> validate m d \<and> hook_exact d
      \<and> (P_monthlyRent \<in> m \<or> P_securityDeposit \<in> m \<or> P_startDate \<in> m \<or> P_endDate \<in> m) \<longrightarrow>
      fst (save m d st)
        = Inr (d\<lparr>totalAmount := monthlyRent d * durationInMonths d + securityDeposit d\<rparr>)
      \<and> findById (bookingId d) (bookings (snd (save m d st)))
        = Some (d\<lparr>totalAmount := monthlyRent d * durationInMonths d + securityDeposit d\<rparr>))
   \<and> (givenTotalAmount n = Some t \<and> validate UNIV n \<and> hook_exact n
      \<and> findById (bookingId n) (bookings st) = None \<longrightarrow>
      fst (save_new n st)
        = Inr (with_totalAmount n (monthlyRent n * durationInMonths n + securityDeposit n))
      \<and> findById (bookingId n) (bookings (snd (save_new n st)))
        = Some (with_totalAmount n (monthlyRent n * durationInMonths n + securityDeposit n)))
   \<and> ((\<forall>b \<in> set (bookings st).
          totalAmount b = monthlyRent b * durationInMonths b + securityDeposit b) \<longrightarrow>
        (\<forall>b \<in> set (bookings (snd (createBooking st u newId pid s e rq))).
           totalAmount b = monthlyRent b * durationInMonths b + securityDeposit b)
        \<and> (\<forall>b \<in> set (bookings (snd (updateStatus st u i ns))).
           totalAmount b = monthlyRent b * durationInMonths b + securityDeposit b)
        \<and> (\<forall>b \<in> set (bookings (snd (addPaymentRoute st u i p))).
           totalAmount b = monthlyRent b * durationInMonths b + securityDeposit b)
        \<and> (\<forall>b \<in> set (bookings (snd (updateProperty st u pid body))).
           totalAmount b = monthlyRent b * durationInMonths b + securityDeposit b))
   \<and> durationInMonths d
       = \<lceil>(real_of_int (endDate d - startDate d) / (1000 * 60 * 60 * 24)) / 30\<rceil>
   \<and> (startDate d < endDate d \<longrightarrow> 1 \<le> durationInMonths d)
   \<and> (endDate d - startDate d = 30 * (1000 * 60 * 60 * 24) \<longrightarrow> durationInMonths d = 1)
   \<and> (endDate d - startDate d = 31 * (1000 * 60 * 60 * 24) \<longrightarrow> durationInMonths d = 2)"
proof -
  let ?d' = "d\<lparr>totalAmount := monthlyRent d * durationInMonths d + securityDeposit d\<rparr>"
  let ?n' = "with_totalAmount n (monthlyRent n * durationInMonths n + securityDeposit n)"
  have stored: "fst (save m d st) = Inr ?d'
      \<and> findById (bookingId d) (bookings (snd (save m d st))) = Some ?d'"
    if "findById (bookingId d) (bookings st) \<noteq> None" and "validate m d"
      and "P_monthlyRent \<in> m \<or> P_securityDeposit \<in> m \<or> P_startDate \<in> m \<or> P_endDate \<in> m"
    using that(1) by (simp add: save_recomputes [OF that(2,3)] findById_updateOne)
  have new: "fst (save_new n st) = Inr ?n'
      \<and> findById (bookingId n) (bookings (snd (save_new n st))) = Some ?n'"
    if "givenTotalAmount n = Some t" and "validate UNIV n"
      and "findById (bookingId n) (bookings st) = None"
    using that(3) by (simp add: save_new_recomputes [OF that] findById_append)
  have kept: "(\<forall>b \<in> set (bookings (snd (createBooking st u newId pid s e rq))).
           totalAmount b = monthlyRent b * durationInMonths b + securityDeposit b)
        \<and> (\<forall>b \<in> set (bookings (snd (updateStatus st u i ns))).
           totalAmount b = monthlyRent b * durationInMonths b + securityDeposit b)
        \<and> (\<forall>b \<in> set (bookings (snd (addPaymentRoute st u i p))).
           totalAmount b = monthlyRent b * durationInMonths b + securityDeposit b)
        \<and> (\<forall>b \<in> set (bookings (snd (updateProperty st u pid body))).
           totalAmount b = monthlyRent b * durationInMonths b + securityDeposit b)"
    if "\<forall>b \<in> set (bookings st).
          totalAmount b = monthlyRent b * durationInMonths b + securityDeposit b"
  proof -
    from that have inv: "\<forall>x \<in> set (bookings st). total_ok x" by (simp add: total_ok_def)
    from total_ok_createBooking [OF inv, of u newId pid s e rq]
      total_ok_updateStatus [OF inv, of u i ns]
      total_ok_addPaymentRoute [OF inv, of u i p] inv
    show ?thesis by (simp add: total_ok_def)
  qed
  from stored new kept
    months_as_days [of d] months_ge_1 [of d] months_30_days [of d] months_31_days [of d]
  show ?thesis by blast
qed

theorem totalAmount_months_formula_witness:
  "fst (save {P_endDate} (booking1\<lparr>endDate := mar1 + 1\<rparr>) store1)
       = Inr (booking1\<lparr>endDate := mar1 + 1, totalAmount := 1000 * 3 + 500\<rparr>)
   \<and> findById 30 (bookings (snd (save {P_endDate} (booking1\<lparr>endDate := mar1 + 1\<rparr>) store1)))
       = Some (booking1\<lparr>endDate := mar1 + 1, totalAmount := 1000 * 3 + 500\<rparr>)
   \<and> fst (save_new (new_Booking 31 7 10 20 jan1 mar1 1000 500 None
                      \<lparr>givenTotalAmount := Some 1\<rparr>) store1)
       = Inr (booking1\<lparr>bookingId := 31, endDate := mar1\<rparr>)
   \<and> totalAmount booking1 = 1000 * 2 + 500
   \<and> findById 30 (bookings (snd (updateStatus store1 bob 30 Approved))) = Some approved1
   \<and> totalAmount approved1 = 1000 * 2 + 500
   \<and> startDate booking1 < endDate booking1 \<and> 1 \<le> durationInMonths booking1
   \<and> endDate booking1 - startDate booking1 = 31 * (1000 * 60 * 60 * 24)
   \<and> durationInMonths booking1 = 2
   \<and> durationInMonths (booking1\<lparr>endDate := jan1 + 30 * (1000 * 60 * 60 * 24)\<rparr>) = 1"
proof -
  let ?d = "booking1\<lparr>endDate := mar1 + 1\<rparr>"
  let ?n = "new_Booking 31 7 10 20 jan1 mar1 1000 500 None\<lparr>givenTotalAmount := Some 1\<rparr>"
  have m3: "durationInMonths ?d = 3"
    by (simp add: durationInMonths_def ceiling_months booking1_def jan1_def mar1_def)
  have m2: "durationInMonths ?n = 2"
    by (simp add: durationInMonths_def ceiling_months new_Booking_def jan1_def mar1_def)
  have hd: "findById (bookingId ?d) (bookings store1) \<noteq> None \<and> validate {P_endDate} ?d
      \<and> hook_exact ?d
      \<and> (P_monthlyRent \<in> {P_endDate} \<or> P_securityDeposit \<in> {P_endDate}
           \<or> P_startDate \<in> {P_endDate} \<or> P_endDate \<in> {P_endDate})"
    by (simp add: findById_store1 booking1_fields validate_def hook_exact_def m3)
      (simp add: safe_integer_def valid_time_def booking1_def jan1_def mar1_def)
  have hn: "givenTotalAmount ?n = Some 1 \<and> validate UNIV ?n \<and> hook_exact ?n
      \<and> findById (bookingId ?n) (bookings store1) = None"
    by (simp add: validate_def hook_exact_def m2)
      (simp add: safe_integer_def valid_time_def new_Booking_def findById_def store1_def
        booking1_def jan1_def mar1_def)
  have d': "?d\<lparr>totalAmount := monthlyRent ?d * durationInMonths ?d + securityDeposit ?d\<rparr>
      = booking1\<lparr>endDate := mar1 + 1, totalAmount := 1000 * 3 + 500\<rparr>"
    by (simp add: m3) (simp add: booking1_def)
  have n': "with_totalAmount ?n (monthlyRent ?n * durationInMonths ?n + securityDeposit ?n)
      = booking1\<lparr>bookingId := 31, endDate := mar1\<rparr>"
    by (simp add: m2) (simp add: with_totalAmount_def new_Booking_def booking1_def trim_def)
  have inv: "\<forall>b \<in> set (bookings store1).
      totalAmount b = monthlyRent b * durationInMonths b + securityDeposit b"
    by (simp add: store1_def durationInMonths_def ceiling_months booking1_def jan1_def feb1_def)
  have l: "startDate booking1 < endDate booking1"
    by (simp add: booking1_def jan1_def feb1_def)
  have d31: "endDate booking1 - startDate booking1 = 31 * (1000 * 60 * 60 * 24)"
    by (simp add: booking1_def jan1_def feb1_def)
  have d30: "endDate (booking1\<lparr>endDate := jan1 + 30 * (1000 * 60 * 60 * 24)\<rparr>)
      - startDate (booking1\<lparr>endDate := jan1 + 30 * (1000 * 60 * 60 * 24)\<rparr>)
      = 30 * (1000 * 60 * 60 * 24)"
    by (simp add: booking1_def)
  have found: "findById 30 (bookings (snd (updateStatus store1 bob 30 Approved)))
      = Some approved1"
  proof -
    have "role bob = Owner" and "owner booking1 = userId bob"
      by (simp_all add: bob_def booking1_fields)
    from updateStatus_success [OF this(1) findById_store1 this(2), of Approved]
    show ?thesis
      by (simp add: findById_updateOne findById_store1 booking1_fields approved1_def)
  qed
  note t = totalAmount_months_formula
    [of ?d store1 "{P_endDate}" ?n 1 bob 31 7 jan1 mar1 None 30 Approved]
  have id: "bookingId ?d = 30" by (simp add: booking1_fields)
  from t [THEN conjunct1, THEN mp, OF hd]
  have a: "fst (save {P_endDate} ?d store1)
       = Inr (booking1\<lparr>endDate := mar1 + 1, totalAmount := 1000 * 3 + 500\<rparr>)
     \<and> findById 30 (bookings (snd (save {P_endDate} ?d store1)))
       = Some (booking1\<lparr>endDate := mar1 + 1, totalAmount := 1000 * 3 + 500\<rparr>)"
    by (simp only: d' id)
  from t [THEN conjunct2, THEN conjunct1, THEN mp, OF hn]
  have b: "fst (save_new ?n store1) = Inr (booking1\<lparr>bookingId := 31, endDate := mar1\<rparr>)"
    by (simp only: n')
  from t [THEN conjunct2, THEN conjunct2, THEN conjunct1, THEN mp, OF inv]
  have "\<forall>b \<in> set (bookings (snd (updateStatus store1 bob 30 Approved))).
      totalAmount b = monthlyRent b * durationInMonths b + securityDeposit b" by blast
  with findById_Some [OF found]
  have "totalAmount approved1
      = monthlyRent approved1 * durationInMonths approved1 + securityDeposit approved1"
    by blast
  then have c: "totalAmount approved1 = 1000 * 2 + 500"
    by (simp add: approved1_def booking1_def durationInMonths_def ceiling_months jan1_def
        feb1_def)
  note t1 = totalAmount_months_formula [of booking1 store1]
  from t1 l have g: "1 \<le> durationInMonths booking1" by blast
  from t1 d31 have m: "durationInMonths booking1 = 2" by blast
  from totalAmount_months_formula
    [of "booking1\<lparr>endDate := jan1 + 30 * (1000 * 60 * 60 * 24)\<rparr>" store1] d30
  have m30: "durationInMonths (booking1\<lparr>endDate := jan1 + 30 * (1000 * 60 * 60 * 24)\<rparr>) = 1"
    by blast
  have tb: "totalAmount booking1 = 1000 * 2 + 500" by (simp add: booking1_def)
  from a b tb found c l g d31 m m30 show ?thesis by blast
qed

subsection \<open>Status updates and the availability of the property\<close>

text \<open>
  Claim C4, as the code has it. A successful update to approved sets \<open>isAvailable\<close> of the
  booking's property to false. A successful update to any other status, cancelled and
  rejected included, leaves the \<open>Property\<close> collection as it was: nothing sets the flag
  back to true.
\<close>

theorem updateStatus_availability:
  "fst (updateStatus st u i s) = Inr b' \<longrightarrow>
     (s = Approved \<longrightarrow>
        (\<forall>p. properties st (property b') = Some p \<longrightarrow>
           properties (snd (updateStatus st u i s))
             = (properties st)(property b' \<mapsto> p\<lparr>isAvailable := False\<rparr>)))
     \<and> (s \<noteq> Approved \<longrightarrow> properties (snd (updateStatus st u i s)) = properties st)"
proof
  assume "fst (updateStatus st u i s) = Inr b'"
  from updateStatus_Inr [OF this] obtain b where
    b: "role u = Owner" "findById i (bookings st) = Some b" "owner b = userId u"
    and b': "b' = b\<lparr>status := s\<rparr>" by blast
  have p: "property b' = property b" by (simp add: b')
  show "(s = Approved \<longrightarrow>
        (\<forall>p. properties st (property b') = Some p \<longrightarrow>
           properties (snd (updateStatus st u i s))
             = (properties st)(property b' \<mapsto> p\<lparr>isAvailable := False\<rparr>)))
     \<and> (s \<noteq> Approved \<longrightarrow> properties (snd (updateStatus st u i s)) = properties st)"
    unfolding p by (simp add: updateStatus_success [OF b] properties_setUnavailable)
qed

theorem updateStatus_availability_witness:
  "fst (updateStatus store1 bob 30 Approved) = Inr approved1
   \<and> properties (snd (updateStatus store1 bob 30 Approved)) 7 = Some (flat\<lparr>isAvailable := False\<rparr>)
   \<and> properties (snd (updateStatus store1 bob 30 Rejected)) 7 = Some flat"
proof -
  have a: "fst (updateStatus store1 bob 30 Approved) = Inr approved1"
    by (simp add: updateStatus_def Let_def findById_store1 save_status bob_def approved1_def
        booking1_fields)
  have r: "fst (updateStatus store1 bob 30 Rejected) = Inr (booking1\<lparr>status := Rejected\<rparr>)"
    by (simp add: updateStatus_def Let_def findById_store1 save_status bob_def booking1_fields)
  have p: "property approved1 = 7" "properties store1 7 = Some flat"
    by (simp_all add: approved1_def booking1_fields store1_def store0_def)
  from updateStatus_availability [of store1 bob 30 Approved approved1] a p
  have "properties (snd (updateStatus store1 bob 30 Approved))
      = (properties store1)(7 \<mapsto> flat\<lparr>isAvailable := False\<rparr>)" by simp
  moreover from updateStatus_availability [of store1 bob 30 Rejected "booking1\<lparr>status := Rejected\<rparr>"] r
  have "properties (snd (updateStatus store1 bob 30 Rejected)) = properties store1" by simp
  ultimately show ?thesis using a p by simp
qed

text \<open>
  Cancelling (or rejecting) an approved booking leaves its property unavailable.
\<close>

theorem cancel_approved_counterexample:
  "status approved1 = Approved
   \<and> properties store3 7 = Some (flat\<lparr>isAvailable := False\<rparr>)
   \<and> fst (updateStatus store3 bob 30 Cancelled) = Inr (approved1\<lparr>status := Cancelled\<rparr>)
   \<and> properties (snd (updateStatus store3 bob 30 Cancelled)) 7 = Some (flat\<lparr>isAvailable := False\<rparr>)
   \<and> fst (updateStatus store3 bob 30 Rejected) = Inr (approved1\<lparr>status := Rejected\<rparr>)
   \<and> properties (snd (updateStatus store3 bob 30 Rejected)) 7 = Some (flat\<lparr>isAvailable := False\<rparr>)"
  by (simp add: updateStatus_def Let_def findById_def save_status store3_def bob_def approved1_def
      booking1_def)

subsection \<open>The payment status after a payment\<close>

text \<open>
  Claim C5, as the code has it. After a successful payment request the stored booking has
  the entry appended and the same total, and its payment status is: paid when the sum of
  the history reaches the total; partial when the sum is positive and below the total; and
  otherwise the status the booking had before. It is not set back to pending. The total,
  the amounts and the partial sums of the history are taken to be safe integers, the
  range in which the sum of the source is exact.
\<close>

theorem addPaymentRoute_paymentStatus:
  "addPaymentRoute st u i p = (Inr b', st')
     \<and> safe_integer (totalAmount b') \<and> exact_sums 0 (paymentHistory b') \<longrightarrow>
     (\<exists>b. findById i (bookings st) = Some b
        \<and> paymentHistory b' = paymentHistory b @ [p]
        \<and> totalAmount b' = totalAmount b
        \<and> paymentStatus b' =
            (if totalAmount b' \<le> sum_list (map amount (paymentHistory b')) then Paid
             else if 0 < sum_list (map amount (paymentHistory b')) then Partial
             else paymentStatus b))
     \<and> findById i (bookings st') = Some b'"
proof
  assume "addPaymentRoute st u i p = (Inr b', st')
     \<and> safe_integer (totalAmount b') \<and> exact_sums 0 (paymentHistory b')"
  then have r: "addPaymentRoute st u i p = (Inr b', st')" by simp
  then have "fst (addPaymentRoute st u i p) = Inr b'" by simp
  from addPaymentRoute_Inr [OF this] obtain b where
    b: "findById i (bookings st) = Some b" "renter b = userId u \<or> owner b = userId u"
    and b': "b' = addPayment b p" by blast
  from r have st': "st' = st\<lparr>bookings := updateOne b' (bookings st)\<rparr>"
    by (simp add: addPaymentRoute_success [OF b] b')
  have "bookingId b' = i" using findById_Some [OF b(1)] by (simp add: b')
  with b(1) have "findById i (bookings st') = Some b'"
    by (simp add: st' findById_updateOne_same)
  moreover have "paymentStatus b' =
            (if totalAmount b' \<le> sum_list (map amount (paymentHistory b')) then Paid
             else if 0 < sum_list (map amount (paymentHistory b')) then Partial
             else paymentStatus b)"
    unfolding b' by (simp add: addPayment_paymentStatus)
  moreover have "paymentHistory b' = paymentHistory b @ [p]" "totalAmount b' = totalAmount b"
    by (simp_all add: b')
  ultimately show "(\<exists>b. findById i (bookings st) = Some b
        \<and> paymentHistory b' = paymentHistory b @ [p]
        \<and> totalAmount b' = totalAmount b
        \<and> paymentStatus b' =
            (if totalAmount b' \<le> sum_list (map amount (paymentHistory b')) then Paid
             else if 0 < sum_list (map amount (paymentHistory b')) then Partial
             else paymentStatus b))
     \<and> findById i (bookings st') = Some b'"
    using b(1) by blast
qed

theorem addPaymentRoute_paymentStatus_witness:
  "addPaymentRoute store1 alice 30 (pay 1500) = (Inr partial1, store0\<lparr>bookings := [partial1]\<rparr>)
   \<and> safe_integer (totalAmount partial1) \<and> exact_sums 0 (paymentHistory partial1)
   \<and> paymentStatus partial1 = Partial
   \<and> findById 30 (bookings (store0\<lparr>bookings := [partial1]\<rparr>)) = Some partial1"
proof -
  have r: "addPaymentRoute store1 alice 30 (pay 1500)
      = (Inr partial1, store0\<lparr>bookings := [partial1]\<rparr>)"
    by (simp add: addPaymentRoute_store1 addPayment_booking1_1500)
  have x: "safe_integer (totalAmount partial1) \<and> exact_sums 0 (paymentHistory partial1)"
    by (simp add: partial1_def booking1_fields pay_def safe_integer_def)
  from addPaymentRoute_paymentStatus
    [of store1 alice 30 "pay 1500" partial1 "store0\<lparr>bookings := [partial1]\<rparr>"] r x
  have "findById 30 (bookings (store0\<lparr>bookings := [partial1]\<rparr>)) = Some partial1" by blast
  moreover have "paymentStatus partial1 = Partial" by (simp add: partial1_def)
  ultimately show ?thesis using r x by simp
qed

text \<open>
  A payment of 1500 and then one of -1500: the sum is 0 and the status is still partial.
\<close>

theorem payment_back_to_zero_counterexample:
  "addPaymentRoute store1 alice 30 (pay 1500) = (Inr partial1, store0\<lparr>bookings := [partial1]\<rparr>)
   \<and> fst (addPaymentRoute (store0\<lparr>bookings := [partial1]\<rparr>) alice 30 (pay (- 1500)))
       = Inr (partial1\<lparr>paymentHistory := [pay 1500, pay (- 1500)]\<rparr>)
   \<and> sum_list (map amount [pay 1500, pay (- 1500)]) = 0
   \<and> exact_sums 0 [pay 1500, pay (- 1500)]
   \<and> paymentStatus (partial1\<lparr>paymentHistory := [pay 1500, pay (- 1500)]\<rparr>) = Partial"
proof -
  have "exact_sums 0 [pay 1500, pay (- 1500)]"
    by (simp add: pay_def safe_integer_def)
  moreover
  have "addPaymentRoute store1 alice 30 (pay 1500)
      = (Inr partial1, store0\<lparr>bookings := [partial1]\<rparr>)"
    by (simp add: addPaymentRoute_store1 addPayment_booking1_1500)
  moreover have "fst (addPaymentRoute (store0\<lparr>bookings := [partial1]\<rparr>) alice 30 (pay (- 1500)))
       = Inr (partial1\<lparr>paymentHistory := [pay 1500, pay (- 1500)]\<rparr>)"
    by (simp add: addPaymentRoute_def findById_def save_payment addPayment_def Let_def
        partial1_def booking1_def alice_def pay_def)
  moreover have "sum_list (map amount [pay 1500, pay (- 1500)]) = 0"
    by (simp add: pay_def)
  moreover have "paymentStatus (partial1\<lparr>paymentHistory := [pay 1500, pay (- 1500)]\<rparr>) = Partial"
    by (simp add: partial1_def)
  ultimately show ?thesis by simp
qed

subsection \<open>No validation of the amount\<close>

text \<open>
  Claim C6, as the code has it. The payment route does not look at the sign of the amount:
  for the renter or the owner of an existing booking every entry is appended to the
  history and saved. The route fails only for an unknown booking or a caller who is
  neither renter nor owner, and a failure leaves the database as it was.
\<close>

theorem addPaymentRoute_no_amount_validation:
  "(findById i (bookings st) = Some b \<and> (renter b = userId u \<or> owner b = userId u) \<longrightarrow>
      addPaymentRoute st u i p
        = (Inr (addPayment b p), st\<lparr>bookings := updateOne (addPayment b p) (bookings st)\<rparr>)
      \<and> paymentHistory (addPayment b p) = paymentHistory b @ [p])
   \<and> (\<forall>e. fst (addPaymentRoute st u i p) = Inl e \<longrightarrow>
         e \<in> {BookingNotFound, NotAuthorized} \<and> snd (addPaymentRoute st u i p) = st)"
  using addPaymentRoute_success [of i st b u p] addPaymentRoute_Inl [of st u i p]
  by simp

theorem addPaymentRoute_no_amount_validation_witness:
  "amount (pay 0) \<le> 0
   \<and> addPaymentRoute store1 bob 30 (pay 0)
       = (Inr (addPayment booking1 (pay 0)),
          store1\<lparr>bookings := updateOne (addPayment booking1 (pay 0)) (bookings store1)\<rparr>)
   \<and> paymentHistory (addPayment booking1 (pay 0)) = [pay 0]
   \<and> fst (addPaymentRoute store1 alice 99 (pay 100)) = Inl BookingNotFound
   \<and> snd (addPaymentRoute store1 alice 99 (pay 100)) = store1"
proof -
  have a: "renter booking1 = userId bob \<or> owner booking1 = userId bob"
    by (simp add: booking1_fields bob_def)
  from addPaymentRoute_no_amount_validation [of 30 store1 booking1 bob "pay 0"]
    findById_store1 a
  have ok: "addPaymentRoute store1 bob 30 (pay 0)
       = (Inr (addPayment booking1 (pay 0)),
          store1\<lparr>bookings := updateOne (addPayment booking1 (pay 0)) (bookings store1)\<rparr>)
      \<and> paymentHistory (addPayment booking1 (pay 0)) = paymentHistory booking1 @ [pay 0]"
    by blast
  have z: "amount (pay 0) \<le> 0" by (simp add: pay_def)
  have e: "fst (addPaymentRoute store1 alice 99 (pay 100)) = Inl BookingNotFound"
    by (simp add: addPaymentRoute_def findById_def store1_def booking1_fields)
  with addPaymentRoute_no_amount_validation [of 99 store1 booking1 alice "pay 100"]
  have "snd (addPaymentRoute store1 alice 99 (pay 100)) = store1" by blast
  with ok z e show ?thesis by (simp add: booking1_fields)
qed

text \<open>An entry with a negative amount is appended and stored.\<close>

theorem negative_payment_counterexample:
  "amount (pay (- 5)) \<le> 0
   \<and> paymentHistory booking1 = []
   \<and> addPaymentRoute store1 alice 30 (pay (- 5))
       = (Inr (booking1\<lparr>paymentHistory := [pay (- 5)]\<rparr>),
          store0\<lparr>bookings := [booking1\<lparr>paymentHistory := [pay (- 5)]\<rparr>]\<rparr>)"
proof -
  have "addPayment booking1 (pay (- 5)) = booking1\<lparr>paymentHistory := [pay (- 5)]\<rparr>"
    by (simp add: addPayment_def booking1_def pay_def)
  then show ?thesis by (simp add: addPaymentRoute_store1 booking1_fields) (simp add: pay_def)
qed

subsection \<open>Monotonicity of the payment status\<close>

text \<open>
  Claim C7, for entries that are not negative. Starting from a booking with an empty history
  and payment status pending, append entries whose amounts are all at least zero: the
  payment status after any prefix of the entries is below or equal to the status after the
  whole sequence, in the order pending, partial, paid.
\<close>

theorem paymentStatus_monotone:
  assumes "paymentHistory b = []" and "paymentStatus b = PaymentPending"
    and "\<forall>p \<in> set (ps @ qs). 0 \<le> amount p"
  shows "payment_status_le (paymentStatus (foldl addPayment b ps))
           (paymentStatus (foldl addPayment b (ps @ qs)))"
proof -
  have "ledger_ok b" using assms(2) by (simp add: ledger_ok_def)
  moreover have "\<forall>p \<in> set ps. 0 \<le> amount p" using assms(3) by simp
  ultimately have "ledger_ok (foldl addPayment b ps)"
    using addPayment_steps by blast
  moreover have "\<forall>p \<in> set qs. 0 \<le> amount p" using assms(3) by simp
  ultimately show ?thesis
    using addPayment_steps [of "foldl addPayment b ps" qs] by simp
qed

theorem paymentStatus_monotone_witness:
  "paymentStatus (foldl addPayment booking1 [pay 1500]) = Partial
   \<and> paymentStatus (foldl addPayment booking1 ([pay 1500] @ [pay 1000])) = Paid
   \<and> payment_status_le (paymentStatus (foldl addPayment booking1 [pay 1500]))
        (paymentStatus (foldl addPayment booking1 ([pay 1500] @ [pay 1000])))"
proof -
  have "\<forall>p \<in> set ([pay 1500] @ [pay 1000]). 0 \<le> amount p" by (simp add: pay_def)
  with paymentStatus_monotone [of booking1 "[pay 1500]" "[pay 1000]"]
  have "payment_status_le (paymentStatus (foldl addPayment booking1 [pay 1500]))
        (paymentStatus (foldl addPayment booking1 ([pay 1500] @ [pay 1000])))"
    by (simp add: booking1_fields)
  moreover have "paymentStatus (foldl addPayment booking1 [pay 1500]) = Partial"
    by (simp add: addPayment_booking1_1500 partial1_def)
  moreover have "paymentStatus (foldl addPayment booking1 ([pay 1500] @ [pay 1000])) = Paid"
    by (simp add: addPayment_booking1_1500) (simp add: addPayment_def partial1_def booking1_def pay_def)
  ultimately show ?thesis by simp
qed

text \<open>
  With a negative entry the status goes back from paid to partial, and the route accepts
  that entry.
\<close>

theorem negative_entry_regresses_counterexample:
  "paymentStatus (foldl addPayment booking1 [pay 2500]) = Paid
   \<and> paymentStatus (foldl addPayment booking1 ([pay 2500] @ [pay (- 2000)])) = Partial
   \<and> \<not> payment_status_le Paid Partial
   \<and> addPaymentRoute store1 alice 30 (pay 2500) = (Inr paid1, store0\<lparr>bookings := [paid1]\<rparr>)
   \<and> fst (addPaymentRoute (store0\<lparr>bookings := [paid1]\<rparr>) alice 30 (pay (- 2000)))
       = Inr (paid1\<lparr>paymentHistory := [pay 2500, pay (- 2000)], paymentStatus := Partial\<rparr>)"
proof -
  have "paymentStatus (foldl addPayment booking1 [pay 2500]) = Paid"
    by (simp add: addPayment_booking1_2500 paid1_def)
  moreover have "addPayment paid1 (pay (- 2000))
      = paid1\<lparr>paymentHistory := [pay 2500, pay (- 2000)], paymentStatus := Partial\<rparr>"
    by (simp add: addPayment_def paid1_def booking1_def pay_def)
  moreover have "addPaymentRoute store1 alice 30 (pay 2500)
      = (Inr paid1, store0\<lparr>bookings := [paid1]\<rparr>)"
    by (simp add: addPaymentRoute_store1 addPayment_booking1_2500)
  moreover have "fst (addPaymentRoute (store0\<lparr>bookings := [paid1]\<rparr>) alice 30 (pay (- 2000)))
       = Inr (addPayment paid1 (pay (- 2000)))"
    by (simp add: addPaymentRoute_def findById_def save_payment Let_def)
      (simp add: paid1_def booking1_def alice_def)
  ultimately show ?thesis by (simp add: addPayment_booking1_2500)
qed

subsection \<open>Which bookings take part in the conflict check\<close>

text \<open>
  Claim C8. Only the bookings of the same property whose status is approved or active take
  part in the conflict check of the create route: the query gives the same answer on the
  collection as on its bookings of that property with one of these two statuses; on an
  empty collection it finds nothing; and when every booking of the property is pending,
  rejected, completed or cancelled, it finds nothing and the create route does not answer
  that the property is already booked.
\<close>

theorem conflict_only_approved_active:
  "conflictingBooking pid s e bs =
     conflictingBooking pid s e
       (filter (\<lambda>b. property b = pid \<and> status b \<in> {Approved, Active}) bs)
   \<and> conflictingBooking pid s e [] = None
   \<and> ((\<forall>b \<in> set bs. property b = pid \<longrightarrow> status b \<notin> {Approved, Active}) \<longrightarrow>
        conflictingBooking pid s e bs = None
        \<and> fst (createBooking (st\<lparr>bookings := bs\<rparr>) u n pid s e r) \<noteq> Inl AlreadyBooked)"
proof (intro conjI impI)
  show "conflictingBooking pid s e bs =
     conflictingBooking pid s e
       (filter (\<lambda>b. property b = pid \<and> status b \<in> {Approved, Active}) bs)"
    unfolding conflictingBooking_def
    by (rule find_filter_weaker [symmetric]) (simp add: conflictFilter_def)
  show "conflictingBooking pid s e [] = None"
    by (simp add: conflictingBooking_def)
next
  assume a: "\<forall>b \<in> set bs. property b = pid \<longrightarrow> status b \<notin> {Approved, Active}"
  then show none: "conflictingBooking pid s e bs = None"
    by (auto simp: conflictingBooking_def find_None_iff conflictFilter_def)
  then have "conflictingBooking pid s e (bookings (st\<lparr>bookings := bs\<rparr>)) = None" by simp
  then show "fst (createBooking (st\<lparr>bookings := bs\<rparr>) u n pid s e r) \<noteq> Inl AlreadyBooked"
    by (rule createBooking_not_AlreadyBooked)
qed

theorem conflict_only_approved_active_witness:
  "conflictingBooking 7 jan1 mar1 [booking1] = None
   \<and> fst (createBooking store1 alice 2 7 jan1 mar1 None) \<noteq> Inl AlreadyBooked"
proof -
  have h: "\<forall>b \<in> set [booking1]. property b = 7 \<longrightarrow> status b \<notin> {Approved, Active}"
    by (simp add: booking1_def)
  from conflict_only_approved_active [of 7 jan1 mar1 "[booking1]" store0 alice 2 None] h
  show ?thesis by (simp add: store1_def)
qed

subsection \<open>Creation does not compare the dates\<close>




subsection \<open>No create request succeeds\<close>

text \<open>
  Claim C10 is about the booking that a successful create stores. The route copies the rent
  price and the deposit of the property into the document that it builds, but the document
  has no \<open>totalAmount\<close> when \<open>save()\<close> validates it, so that every create request fails and
  stores nothing: here the request of a renter for an available property without
  bookings, from 1 January to 1 February.
\<close>

theorem createBooking_never_succeeds:
  "(\<exists>e. createBooking st u newId pid startD endD rq = (Inl e, st))
   \<and> createBooking store0 alice 30 7 jan1 feb1 None = (Inl ServerError, store0)
   \<and> createBooking store0 alice 30 7 jan1 feb1 None
       = save_new (new_Booking 30 7 10 20 jan1 feb1 (rentPrice flat) (propertyDeposit flat)
           None) store0
   \<and> monthlyRent (new_Booking 30 7 10 20 jan1 feb1 (rentPrice flat) (propertyDeposit flat)
         None) = rentPrice flat
   \<and> securityDeposit (new_Booking 30 7 10 20 jan1 feb1 (rentPrice flat) (propertyDeposit flat)
         None) = propertyDeposit flat
   \<and> givenTotalAmount (new_Booking 30 7 10 20 jan1 feb1 (rentPrice flat)
         (propertyDeposit flat) None) = None"
proof -
  have "\<exists>e. createBooking st u newId pid startD endD rq = (Inl e, st)"
    using createBooking_fails [of st u newId pid startD endD rq] by blast
  moreover have "createBooking store0 alice 30 7 jan1 feb1 None = (Inl ServerError, store0)"
    by (rule createBooking_checks_pass [OF store0_checks_pass(1-3) store0_no_conflict])
  moreover have "createBooking store0 alice 30 7 jan1 feb1 None
       = save_new (new_Booking 30 7 10 20 jan1 feb1 (rentPrice flat) (propertyDeposit flat)
           None) store0"
    using createBooking_reaches_save
      [OF store0_checks_pass(1-3) store0_no_conflict store0_checks_pass(4),
        where s = jan1 and e = feb1 and n = 30 and rq = None]
    by (simp add: alice_def flat_fields)
  ultimately show ?thesis by (simp add: new_Booking_fields)
qed

end
